theory Spec2Isabelle
  imports Complex_Main "HOL-Library.Word"
begin

section \<open>The graphics device and the windowing backend\<close>

text \<open>
  \<^verbatim>\<open>game_window.cc\<close> and \<^verbatim>\<open>material.cc\<close> talk to three external collaborators:
  OpenGL (through glad), GLFW and glm. None of them is part of the repository. Every
  call made to them is recorded, with its arguments, in a chronological trace; every value
  they hand back is read from an environment whose answers may depend on all the calls
  made so far. The floating-point type \<open>'f\<close> and the matrix type \<open>'m\<close> of glm are type
  parameters, so nothing is assumed about rounding.
\<close>

type_synonym GLuint = "32 word"

text \<open>\<^verbatim>\<open>GLint\<close> and \<^verbatim>\<open>int\<close> are 32-bit two's complement: \<open>sint\<close> reads their value.\<close>

type_synonym GLint = "32 word"
type_synonym c_int = "32 word"

text \<open>Pointers are addresses; \<open>0\<close> is \<^verbatim>\<open>nullptr\<close>.\<close>

type_synonym ptr = nat

datatype shader_type = GL_VERTEX_SHADER | GL_FRAGMENT_SHADER

datatype status_name = GL_COMPILE_STATUS | GL_LINK_STATUS

datatype clear_bit = GL_COLOR_BUFFER_BIT | GL_DEPTH_BUFFER_BIT

datatype texture_unit = GL_TEXTURE0 | GL_TEXTURE1

datatype texture_target = GL_TEXTURE_2D

datatype capability = GL_DEPTH_TEST

datatype window_hint =
    GLFW_CONTEXT_VERSION_MAJOR
  | GLFW_CONTEXT_VERSION_MINOR
  | GLFW_OPENGL_PROFILE
  | GLFW_OPENGL_FORWARD_COMPAT
  | GLFW_RESIZABLE

datatype hint_value = HintInt int | GLFW_OPENGL_CORE_PROFILE | GL_TRUE | GL_FALSE

datatype ('f, 'm) call =
    GlfwInit
  | GlfwWindowHint window_hint hint_value
  | GlfwCreateWindow c_int c_int string
  | GlfwTerminate
  | GlfwMakeContextCurrent ptr
  | GladLoadGL
  | GlfwWindowShouldClose ptr
  | GlfwSetWindowSize ptr c_int c_int
  | GlfwGetFramebufferSize ptr
  | GlfwPollEvents
  | GlfwSwapBuffers ptr
  | GlEnable capability
  | GlClearColor 'f 'f 'f 'f
  | GlViewport c_int c_int c_int c_int
  | GlClear "clear_bit set"
  | GlCreateShader shader_type
  | GlShaderSource GLuint string
  | GlCompileShader GLuint
  | GlGetShaderiv GLuint status_name
  | GlGetShaderInfoLog GLuint nat
  | GlDeleteShader GLuint
  | GlCreateProgram
  | GlAttachShader GLuint GLuint
  | GlLinkProgram GLuint
  | GlGetProgramiv GLuint status_name
  | GlGetProgramInfoLog GLuint nat
  | GlUseProgram GLuint
  | GlGetUniformLocation GLuint string
  | GlUniformMatrix4fv GLint nat bool 'm
  | GlUniform1f GLint 'f
  | GlUniform1i GLint c_int
  | GlActiveTexture texture_unit
  | GlBindTexture texture_target GLuint
  | IfstreamRead string
  | StdCout string
  | CameraGetViewTransform ptr
  | ModelInstanceDraw ptr GLuint

type_synonym ('f, 'm) trace = "('f, 'm) call list"

text \<open>
  What \<^verbatim>\<open>std::ifstream ifs(path)\<close> finds at a path:
  \<^item> \<open>CannotOpen\<close>: the file cannot be opened (it is missing, say); the stream has no
    open buffer and every read from it reports end-of-file;
  \<^item> \<open>ReadError bs\<close>: the file is opened and delivers the bytes \<open>bs\<close>, possibly none,
    and then a read fails (a directory fails at the first read);
  \<^item> \<open>Bytes bs\<close>: the file is opened and holds the bytes \<open>bs\<close>.
\<close>

datatype file_entry = CannotOpen | ReadError string | Bytes string

definition read_fails :: "file_entry \<Rightarrow> bool" where
  "read_fails f = (case f of ReadError bs \<Rightarrow> True | _ \<Rightarrow> False)"

text \<open>
  The environment. Each query takes the trace of all calls made before it. The fields
  \<open>radians\<close> and \<open>perspective\<close> are \<^verbatim>\<open>glm::radians\<close> and \<^verbatim>\<open>glm::perspective\<close>;
  \<open>float_of_int\<close> is the cast \<^verbatim>\<open>(GLfloat)\<close> of an \<^verbatim>\<open>int\<close>, \<open>float_div\<close> the division
  of two \<^verbatim>\<open>GLfloat\<close>s, \<open>float_lit\<close> the value of a literal such as \<^verbatim>\<open>0.1f\<close>, given
  as the real number it denotes, and \<open>mat4_default\<close> the default-constructed \<^verbatim>\<open>glm::mat4\<close>.
\<close>

record ('f, 'm) env =
  files :: "string \<Rightarrow> file_entry"
  glfwCreateWindow :: "('f, 'm) trace \<Rightarrow> c_int \<Rightarrow> c_int \<Rightarrow> ptr"
  glfwGetFramebufferSize :: "('f, 'm) trace \<Rightarrow> ptr \<Rightarrow> c_int \<times> c_int"
  glfwWindowShouldClose :: "('f, 'm) trace \<Rightarrow> ptr \<Rightarrow> bool"
  glCreateShader :: "('f, 'm) trace \<Rightarrow> shader_type \<Rightarrow> GLuint"
  glGetShaderiv :: "('f, 'm) trace \<Rightarrow> GLuint \<Rightarrow> status_name \<Rightarrow> GLint"
  glGetShaderInfoLog :: "('f, 'm) trace \<Rightarrow> GLuint \<Rightarrow> string"
  glCreateProgram :: "('f, 'm) trace \<Rightarrow> GLuint"
  glGetProgramiv :: "('f, 'm) trace \<Rightarrow> GLuint \<Rightarrow> status_name \<Rightarrow> GLint"
  glGetProgramInfoLog :: "('f, 'm) trace \<Rightarrow> GLuint \<Rightarrow> string"
  glGetUniformLocation :: "('f, 'm) trace \<Rightarrow> GLuint \<Rightarrow> string \<Rightarrow> GLint"
  GetViewTransform :: "('f, 'm) trace \<Rightarrow> ptr \<Rightarrow> 'm"
  radians :: "'f \<Rightarrow> 'f"
  perspective :: "'f \<Rightarrow> 'f \<Rightarrow> 'f \<Rightarrow> 'f \<Rightarrow> 'm"
  float_of_int :: "c_int \<Rightarrow> 'f"
  float_div :: "'f \<Rightarrow> 'f \<Rightarrow> 'f"
  float_lit :: "real \<Rightarrow> 'f"
  mat4_default :: "'m"

section \<open>Material (material.cc)\<close>

record 'f Material =
  shininess :: 'f
  ambient_coefficient :: 'f
  diffuse_handle :: GLuint
  specular_handle :: GLuint

definition Material4 :: "GLuint \<Rightarrow> GLuint \<Rightarrow> 'f \<Rightarrow> 'f \<Rightarrow> 'f Material" where
  "Material4 dh sh shin ambient =
     \<lparr>shininess = shin, ambient_coefficient = ambient,
      diffuse_handle = dh, specular_handle = sh\<rparr>"

definition Material3 :: "('f, 'm) env \<Rightarrow> GLuint \<Rightarrow> GLuint \<Rightarrow> 'f \<Rightarrow> 'f Material" where
  "Material3 e dh sh shin = Material4 dh sh shin (float_lit e (3 / 100))"

text \<open>\<^verbatim>\<open>operator<<\<close> of a \<^verbatim>\<open>bool\<close> on \<^verbatim>\<open>std::cout\<close> (no \<^verbatim>\<open>boolalpha\<close>).\<close>

definition show_bool :: "bool \<Rightarrow> string" where
  "show_bool b = (if b then ''1'' else ''0'')"

text \<open>
  \<^verbatim>\<open>Material::UseMaterial\<close>. The material is not changed; the result is the trace
  extended by the calls made, in the order the statements make them. In
  \<^verbatim>\<open>glUniform1i(glGetUniformLocation(program, "diffuse_texture"), 0)\<close> the argument is
  evaluated before the call.
\<close>

definition UseMaterial ::
  "('f, 'm) env \<Rightarrow> 'f Material \<Rightarrow> GLuint \<Rightarrow> ('f, 'm) trace \<Rightarrow> ('f, 'm) trace" where
  "UseMaterial e m program t0 =
    (let ambient_location = glGetUniformLocation e t0 program ''ambient_coefficient'';
         t1 = t0 @ [GlGetUniformLocation program ''ambient_coefficient''];
         t2 = t1 @ [GlUniform1f ambient_location (ambient_coefficient m)];
         shininess_location = glGetUniformLocation e t2 program ''shininess'';
         t3 = t2 @ [GlGetUniformLocation program ''shininess''];
         t4 = t3 @ [GlUniform1f shininess_location (shininess m)];
         diffuse_enabled_location = glGetUniformLocation e t4 program ''diffuse_enabled'';
         t5 = t4 @ [GlGetUniformLocation program ''diffuse_enabled''];
         t6 = t5 @ [GlUniform1i diffuse_enabled_location (of_bool (diffuse_handle m \<noteq> 0))];
         t7 = (if diffuse_handle m \<noteq> 0 then
                 (let u1 = t6 @ [GlActiveTexture GL_TEXTURE0];
                      u2 = u1 @ [GlBindTexture GL_TEXTURE_2D (diffuse_handle m)];
                      loc = glGetUniformLocation e u2 program ''diffuse_texture'';
                      u3 = u2 @ [GlGetUniformLocation program ''diffuse_texture'']
                  in u3 @ [GlUniform1i loc 0])
               else t6);
         specular_enabled_location = glGetUniformLocation e t7 program ''specular_enabled'';
         t8 = t7 @ [GlGetUniformLocation program ''specular_enabled''];
         t9 = t8 @ [StdCout (''specular_enabled '' @ show_bool (specular_handle m \<noteq> 0) @ ''\<newline>'')];
         t10 = t9 @ [GlUniform1i specular_enabled_location (of_bool (specular_handle m \<noteq> 0))]
     in if specular_handle m \<noteq> 0 then
          (let u1 = t10 @ [GlActiveTexture GL_TEXTURE1];
               u2 = u1 @ [GlBindTexture GL_TEXTURE_2D (specular_handle m)];
               loc = glGetUniformLocation e u2 program ''specular_texture'';
               u3 = u2 @ [GlGetUniformLocation program ''specular_texture'']
           in u3 @ [GlUniform1i loc 1])
        else t10)"

definition RemoveTexture :: "'f Material \<Rightarrow> GLuint \<Rightarrow> 'f Material" where
  "RemoveTexture m ident =
    (let m1 = (if diffuse_handle m = ident then m\<lparr>diffuse_handle := 0\<rparr> else m)
     in if specular_handle m1 = ident then m1\<lparr>specular_handle := 0\<rparr> else m1)"

section \<open>GameWindow (game_window.cc)\<close>

text \<open>
  The fields of \<^verbatim>\<open>gfx::Color\<close> are \<^verbatim>\<open>r\<close>, \<^verbatim>\<open>g\<close>, \<^verbatim>\<open>b\<close> and \<^verbatim>\<open>a\<close>; they carry a
  prefix here, a one-letter constant being unusable in HOL.
\<close>

record 'f Color =
  color_r :: 'f
  color_g :: 'f
  color_b :: 'f
  color_a :: 'f

text \<open>
  Modelled from the spec: the three-argument constructor of \<^verbatim>\<open>gfx::Color\<close>, declared in
  a header outside the sources. The black it builds is opaque, so its alpha is \<open>1\<close>.
\<close>

definition Color3 :: "('f, 'm) env \<Rightarrow> 'f \<Rightarrow> 'f \<Rightarrow> 'f \<Rightarrow> 'f Color" where
  "Color3 e red green blue =
     \<lparr>color_r = red, color_g = green, color_b = blue, color_a = float_lit e 1\<rparr>"

text \<open>
  The exceptions that leave these functions: the one \<^verbatim>\<open>game_window.cc\<close> throws, and the
  \<^verbatim>\<open>std::ios_base::failure\<close> that \<^verbatim>\<open>basic_filebuf::underflow\<close> of libstdc++ throws when a
  read fails. Nothing in the sources catches either.
\<close>

datatype exn = GameWindowCannotBeInitializedException | std_ios_base_failure

record ('f, 'm) GameWindow =
  camera :: ptr
  window :: ptr
  field_of_view :: 'f
  program :: GLuint
  perspective_projection :: 'm

text \<open>
  A member function is a function of the object and the trace. The \<^verbatim>\<open>void\<close> ones return
  the object, as they leave it, and the extended trace.
\<close>

type_synonym ('f, 'm) st = "('f, 'm) GameWindow \<times> ('f, 'm) trace"

definition IsRunning :: "('f, 'm) env \<Rightarrow> ('f, 'm) st \<Rightarrow> bool \<times> ('f, 'm) st" where
  "IsRunning e s =
    (case s of (gw, t0) \<Rightarrow>
       (\<not> glfwWindowShouldClose e t0 (window gw),
        (gw, t0 @ [GlfwWindowShouldClose (window gw)])))"

definition SetBufferClearColor :: "'f Color \<Rightarrow> ('f, 'm) st \<Rightarrow> ('f, 'm) st" where
  "SetBufferClearColor color s =
    (case s of (gw, t0) \<Rightarrow>
       (gw, t0 @ [GlClearColor (color_r color) (color_g color) (color_b color) (color_a color)]))"

definition UpdatePerspectiveProjection ::
  "('f, 'm) env \<Rightarrow> c_int \<Rightarrow> c_int \<Rightarrow> ('f, 'm) st \<Rightarrow> ('f, 'm) st" where
  "UpdatePerspectiveProjection e width height s =
    (case s of (gw, t0) \<Rightarrow>
       (gw\<lparr>perspective_projection :=
              perspective e (radians e (field_of_view gw))
                (float_div e (float_of_int e width) (float_of_int e height))
                (float_lit e (1 / 10)) (float_lit e 100)\<rparr>,
        t0))"

definition UpdateDimensions ::
  "('f, 'm) env \<Rightarrow> c_int \<Rightarrow> c_int \<Rightarrow> ('f, 'm) st \<Rightarrow> ('f, 'm) st" where
  "UpdateDimensions e width height s =
    (case s of (gw, t0) \<Rightarrow>
       (let t1 = t0 @ [GlfwSetWindowSize (window gw) width height];
            (real_width, real_height) = glfwGetFramebufferSize e t1 (window gw);
            t2 = t1 @ [GlfwGetFramebufferSize (window gw)];
            t3 = t2 @ [GlViewport 0 0 real_width real_height]
        in UpdatePerspectiveProjection e real_width real_height (gw, t3)))"

definition UpdateFieldOfView :: "('f, 'm) env \<Rightarrow> 'f \<Rightarrow> ('f, 'm) st \<Rightarrow> ('f, 'm) st" where
  "UpdateFieldOfView e fov s =
    (case s of (gw, t0) \<Rightarrow>
       (let gw1 = gw\<lparr>field_of_view := fov\<rparr>;
            (real_width, real_height) = glfwGetFramebufferSize e t0 (window gw1);
            t1 = t0 @ [GlfwGetFramebufferSize (window gw1)]
        in UpdatePerspectiveProjection e real_width real_height (gw1, t1)))"

definition PollForEvents :: "('f, 'm) st \<Rightarrow> ('f, 'm) st" where
  "PollForEvents s = (case s of (gw, t0) \<Rightarrow> (gw, t0 @ [GlfwPollEvents]))"

text \<open>
  \<^verbatim>\<open>InitializeGameWindow\<close>: \<open>Inl\<close> is the exception thrown when no window is created.
\<close>

definition InitializeGameWindow ::
  "('f, 'm) env \<Rightarrow> c_int \<Rightarrow> c_int \<Rightarrow> 'f Color \<Rightarrow> ('f, 'm) st
     \<Rightarrow> (exn + ('f, 'm) GameWindow) \<times> ('f, 'm) trace" where
  "InitializeGameWindow e width height color s =
    (case s of (gw, t0) \<Rightarrow>
       (let t1 = t0 @ [GlfwInit,
                       GlfwWindowHint GLFW_CONTEXT_VERSION_MAJOR (HintInt 3),
                       GlfwWindowHint GLFW_CONTEXT_VERSION_MINOR (HintInt 3),
                       GlfwWindowHint GLFW_OPENGL_PROFILE GLFW_OPENGL_CORE_PROFILE,
                       GlfwWindowHint GLFW_OPENGL_FORWARD_COMPAT GL_TRUE,
                       GlfwWindowHint GLFW_RESIZABLE GL_FALSE];
            gw1 = gw\<lparr>window := glfwCreateWindow e t1 width height\<rparr>;
            t2 = t1 @ [GlfwCreateWindow width height ''OpenGL'']
        in if window gw1 = 0 then
             (Inl GameWindowCannotBeInitializedException,
              t2 @ [StdCout ''Failed to create OpenGL context.\<newline>'', GlfwTerminate])
           else
             (let t3 = t2 @ [GlfwMakeContextCurrent (window gw1), GladLoadGL,
                             GlEnable GL_DEPTH_TEST];
                  s4 = SetBufferClearColor color (gw1, t3);
                  s5 = UpdateDimensions e width height s4
              in (Inr (fst s5), snd s5))))"

text \<open>
  \<^verbatim>\<open>std::string content((std::istreambuf_iterator<char>(ifs)), (std::istreambuf_iterator<char>()))\<close>:
  no bytes from a stream without an open buffer, all the bytes of a file that can be read,
  and the exception out of a read that fails, whatever was delivered before it.
\<close>

definition read_content :: "('f, 'm) env \<Rightarrow> string \<Rightarrow> exn + string" where
  "read_content e path =
     (case files e path of
        CannotOpen \<Rightarrow> Inr []
      | ReadError bs \<Rightarrow> Inl std_ios_base_failure
      | Bytes bs \<Rightarrow> Inr bs)"

text \<open>What a function reading a C string sees of a byte sequence: the bytes before the first NUL.\<close>

definition c_str :: "string \<Rightarrow> string" where
  "c_str bs = takeWhile (\<lambda>c. c \<noteq> CHR 0x00) bs"

text \<open>
  \<^verbatim>\<open>CompileShader\<close>. \<open>Inl\<close> is an exception that leaves it, \<open>Inr\<close> the handle it returns.
  An information log is written into 512 bytes, the last one a NUL.
\<close>

definition CompileShader ::
  "('f, 'm) env \<Rightarrow> string \<Rightarrow> shader_type \<Rightarrow> ('f, 'm) trace
     \<Rightarrow> (exn + GLuint) \<times> ('f, 'm) trace" where
  "CompileShader e path shader_type t0 =
    (let t1 = t0 @ [IfstreamRead path]
     in case read_content e path of
          Inl x \<Rightarrow> (Inl x, t1)
        | Inr content \<Rightarrow>
            if length content = 0 then (Inr 0, t1)
            else
              (let shader = glCreateShader e t1 shader_type;
                   t2 = t1 @ [GlCreateShader shader_type];
                   t3 = t2 @ [GlShaderSource shader (c_str content)];
                   t4 = t3 @ [GlCompileShader shader];
                   success = glGetShaderiv e t4 shader GL_COMPILE_STATUS;
                   t5 = t4 @ [GlGetShaderiv shader GL_COMPILE_STATUS]
               in if success = 0 then
                    (let info_log = take 511 (glGetShaderInfoLog e t5 shader);
                         t6 = t5 @ [GlGetShaderInfoLog shader 512]
                     in (Inr 0,
                         t6 @ [StdCout (''Shader compilation of '' @ [CHR 0x27] @ path
                                 @ [CHR 0x27] @ '' failed:\<newline>'' @ c_str info_log
                                 @ ''\<newline>'')]))
                  else (Inr shader, t5)))"

text \<open>
  \<^verbatim>\<open>LinkProgram\<close>. Both shaders are compiled before either handle is tested; an exception
  out of the first compilation leaves before the second starts.
\<close>

definition LinkProgram ::
  "('f, 'm) env \<Rightarrow> string \<Rightarrow> string \<Rightarrow> ('f, 'm) trace
     \<Rightarrow> (exn + GLuint) \<times> ('f, 'm) trace" where
  "LinkProgram e vertex_path fragment_path t0 =
    (case CompileShader e vertex_path GL_VERTEX_SHADER t0 of
       (Inl x, t1) \<Rightarrow> (Inl x, t1)
     | (Inr vertex_shader, t1) \<Rightarrow>
         (case CompileShader e fragment_path GL_FRAGMENT_SHADER t1 of
            (Inl x, t2) \<Rightarrow> (Inl x, t2)
          | (Inr frag_shader, t2) \<Rightarrow>
              if vertex_shader = 0 \<or> frag_shader = 0 then (Inr 0, t2)
              else
                (let linked_program = glCreateProgram e t2;
                     t3 = t2 @ [GlCreateProgram,
                                GlAttachShader linked_program vertex_shader,
                                GlAttachShader linked_program frag_shader,
                                GlLinkProgram linked_program,
                                GlDeleteShader vertex_shader,
                                GlDeleteShader frag_shader];
                     success = glGetProgramiv e t3 linked_program GL_LINK_STATUS;
                     t4 = t3 @ [GlGetProgramiv linked_program GL_LINK_STATUS]
                 in if success = 0 then
                      (let info_log = take 511 (glGetProgramInfoLog e t4 linked_program);
                           t5 = t4 @ [GlGetProgramInfoLog linked_program 512]
                       in (Inr 0,
                           t5 @ [StdCout (''Failed to link shader program:\<newline>''
                                   @ c_str info_log @ ''\<newline>'')]))
                    else if linked_program = 0 then
                      (Inr 0,
                       t4 @ [StdCout ''Failed to create shader program.\<newline>'',
                             GlfwTerminate])
                    else (Inr linked_program, t4))))"

text \<open>
  The two constructors. \<open>Inl\<close> is the exception that leaves the constructor, and then no
  object exists; \<open>Inr\<close> is the object constructed.
\<close>

definition GameWindow_ctor ::
  "('f, 'm) env \<Rightarrow> c_int \<Rightarrow> c_int \<Rightarrow> string \<Rightarrow> string \<Rightarrow> ptr \<Rightarrow> 'f \<Rightarrow> 'f Color
     \<Rightarrow> ('f, 'm) trace \<Rightarrow> (exn + ('f, 'm) GameWindow) \<times> ('f, 'm) trace" where
  "GameWindow_ctor e width height vertex_path fragment_path cam fov color t0 =
    (let gw0 = \<lparr>camera = cam, window = 0, field_of_view = fov, program = 0,
                perspective_projection = mat4_default e\<rparr>
     in case InitializeGameWindow e width height color (gw0, t0) of
          (Inl x, t1) \<Rightarrow> (Inl x, t1)
        | (Inr gw1, t1) \<Rightarrow>
            (case LinkProgram e vertex_path fragment_path t1 of
               (Inl x, t2) \<Rightarrow> (Inl x, t2)
             | (Inr linked, t2) \<Rightarrow>
                 (let gw2 = gw1\<lparr>program := linked\<rparr>
                  in if program gw2 = 0 then (Inl GameWindowCannotBeInitializedException, t2)
                     else (Inr gw2, t2))))"

definition GameWindow_ctor_default ::
  "('f, 'm) env \<Rightarrow> c_int \<Rightarrow> c_int \<Rightarrow> string \<Rightarrow> string \<Rightarrow> ptr
     \<Rightarrow> ('f, 'm) trace \<Rightarrow> (exn + ('f, 'm) GameWindow) \<times> ('f, 'm) trace" where
  "GameWindow_ctor_default e width height vertex_path fragment_path cam t0 =
    (let gw0 = \<lparr>camera = cam, window = 0, field_of_view = float_lit e 45, program = 0,
                perspective_projection = mat4_default e\<rparr>
     in case InitializeGameWindow e width height
               (Color3 e (float_lit e 0) (float_lit e 0) (float_lit e 0)) (gw0, t0) of
          (Inl x, t1) \<Rightarrow> (Inl x, t1)
        | (Inr gw1, t1) \<Rightarrow>
            (case LinkProgram e vertex_path fragment_path t1 of
               (Inl x, t2) \<Rightarrow> (Inl x, t2)
             | (Inr linked, t2) \<Rightarrow>
                 (let gw2 = gw1\<lparr>program := linked\<rparr>
                  in if program gw2 = 0 then (Inl GameWindowCannotBeInitializedException, t2)
                     else (Inr gw2, t2))))"

definition PrepareRender :: "('f, 'm) env \<Rightarrow> ('f, 'm) st \<Rightarrow> ('f, 'm) st" where
  "PrepareRender e s =
    (case s of (gw, t0) \<Rightarrow>
       (let t1 = t0 @ [GlUseProgram (program gw)];
            t2 = t1 @ [GlClear {GL_COLOR_BUFFER_BIT, GL_DEPTH_BUFFER_BIT}];
            view_location = glGetUniformLocation e t2 (program gw) ''view'';
            t3 = t2 @ [GlGetUniformLocation (program gw) ''view''];
            view = GetViewTransform e t3 (camera gw);
            t4 = t3 @ [CameraGetViewTransform (camera gw)];
            t5 = t4 @ [GlUniformMatrix4fv view_location 1 False view];
            projection_location = glGetUniformLocation e t5 (program gw) ''projection'';
            t6 = t5 @ [GlGetUniformLocation (program gw) ''projection'']
        in (gw, t6 @ [GlUniformMatrix4fv projection_location 1 False
                        (perspective_projection gw)])))"

definition RenderModel :: "ptr \<Rightarrow> ('f, 'm) st \<Rightarrow> ('f, 'm) st" where
  "RenderModel model_instance s =
    (case s of (gw, t0) \<Rightarrow> (gw, t0 @ [ModelInstanceDraw model_instance (program gw)]))"

definition FinishRender :: "('f, 'm) st \<Rightarrow> ('f, 'm) st" where
  "FinishRender s = (case s of (gw, t0) \<Rightarrow> (gw, t0 @ [GlfwSwapBuffers (window gw)]))"

section \<open>The frame protocol and what a trace shows\<close>

text \<open>
  One frame as the caller runs it: \<^verbatim>\<open>PrepareRender\<close>, one \<^verbatim>\<open>RenderModel\<close> for each
  model instance in turn, then \<^verbatim>\<open>FinishRender\<close>.
\<close>

definition render_frame :: "('f, 'm) env \<Rightarrow> ptr list \<Rightarrow> ('f, 'm) st \<Rightarrow> ('f, 'm) st" where
  "render_frame e models s =
     FinishRender (foldl (\<lambda>s1 model_instance. RenderModel model_instance s1)
                     (PrepareRender e s) models)"

text \<open>
  The texture binds a sequence of calls performs, each with the texture unit that is active
  when it happens; \<open>u\<close> is the unit active before the first call.
\<close>

fun texture_binds :: "texture_unit \<Rightarrow> ('f, 'm) call list \<Rightarrow> (texture_unit \<times> GLuint) list" where
  "texture_binds u [] = []"
| "texture_binds u (c # cs) =
     (case c of
        GlActiveTexture v \<Rightarrow> texture_binds v cs
      | GlBindTexture target h \<Rightarrow> (u, h) # texture_binds u cs
      | _ \<Rightarrow> texture_binds u cs)"

text \<open>The viewport and the window size a trace has set last, if it has set any.\<close>

definition viewport_call :: "('f, 'm) call \<Rightarrow> (c_int \<times> c_int \<times> c_int \<times> c_int) option" where
  "viewport_call c = (case c of GlViewport x y w h \<Rightarrow> Some (x, y, w, h) | _ \<Rightarrow> None)"

definition window_size_call :: "('f, 'm) call \<Rightarrow> (ptr \<times> c_int \<times> c_int) option" where
  "window_size_call c = (case c of GlfwSetWindowSize p w h \<Rightarrow> Some (p, w, h) | _ \<Rightarrow> None)"

fun last_set :: "('c \<Rightarrow> 'v option) \<Rightarrow> 'c list \<Rightarrow> 'v option" where
  "last_set f [] = None"
| "last_set f (c # cs) =
     (case last_set f cs of Some v \<Rightarrow> Some v | None \<Rightarrow> f c)"

definition last_viewport :: "('f, 'm) trace \<Rightarrow> (c_int \<times> c_int \<times> c_int \<times> c_int) option" where
  "last_viewport t = last_set viewport_call t"

definition last_window_size :: "('f, 'm) trace \<Rightarrow> (ptr \<times> c_int \<times> c_int) option" where
  "last_window_size t = last_set window_size_call t"

section \<open>A concrete environment\<close>

text \<open>
  Two shader files that compile, an empty one, a directory, and nothing else on disk; a display whose
  framebuffer is 1280 by 720 pixels whatever window size is asked for; floats as reals.
\<close>

definition demo_files :: "string \<Rightarrow> file_entry" where
  "demo_files path =
     (if path = ''shader.vert'' then Bytes ''void main() { gl_Position = vec4(0); }''
      else if path = ''shader.frag'' then Bytes ''void main() { }''
      else if path = ''empty.frag'' then Bytes []
      else if path = ''shaders'' then ReadError []
      else CannotOpen)"

definition demo_env :: "(real, real list) env" where
  "demo_env =
     \<lparr>files = demo_files,
      glfwCreateWindow = (\<lambda>t w h. 1),
      glfwGetFramebufferSize = (\<lambda>t p. (1280, 720)),
      glfwWindowShouldClose = (\<lambda>t p. False),
      glCreateShader = (\<lambda>t ty. case ty of GL_VERTEX_SHADER \<Rightarrow> 1 | GL_FRAGMENT_SHADER \<Rightarrow> 2),
      glGetShaderiv = (\<lambda>t sh n. 1),
      glGetShaderInfoLog = (\<lambda>t sh. []),
      glCreateProgram = (\<lambda>t. 3),
      glGetProgramiv = (\<lambda>t pr n. 1),
      glGetProgramInfoLog = (\<lambda>t pr. []),
      glGetUniformLocation = (\<lambda>t pr name. of_nat (length name)),
      GetViewTransform = (\<lambda>t cam. [1]),
      radians = (\<lambda>degrees. degrees * (17453292519943296 / 1000000000000000000)),
      perspective = (\<lambda>fovy aspect near far. [fovy, aspect, near, far]),
      float_of_int = (\<lambda>i. real_of_int (sint i)),
      float_div = (\<lambda>x y. x / y),
      float_lit = (\<lambda>x. x),
      mat4_default = []\<rparr>"

text \<open>The same environment with a linker that rejects every program.\<close>

definition demo_env_link_fails :: "(real, real list) env" where
  "demo_env_link_fails = demo_env\<lparr>glGetProgramiv := (\<lambda>t pr n. 0)\<rparr>"

definition demo_material :: "real Material" where
  "demo_material = Material3 demo_env 0 7 32"

text \<open>The window that the default constructor builds in this environment.\<close>

definition demo_window :: "(real, real list) GameWindow" where
  "demo_window =
     \<lparr>camera = 1, window = 1, field_of_view = 45, program = 3,
      perspective_projection =
        [45 * (17453292519943296 / 1000000000000000000), 1280 / 720, 1 / 10, 100]\<rparr>"

section \<open>Shader compilation, linking and construction\<close>

lemma CompileShader_throws:
  "read_fails (files e path) \<Longrightarrow>
     CompileShader e path ty t = (Inl std_ios_base_failure, t @ [IfstreamRead path])"
  by (simp add: CompileShader_def read_content_def read_fails_def Let_def
      split: file_entry.splits)

lemma CompileShader_no_bytes:
  "files e path = CannotOpen \<or> files e path = Bytes [] \<Longrightarrow>
     CompileShader e path ty t = (Inr 0, t @ [IfstreamRead path])"
  by (auto simp: CompileShader_def read_content_def Let_def)

lemma CompileShader_returns:
  "\<not> read_fails (files e path) \<Longrightarrow> \<exists>h t1. CompileShader e path ty t = (Inr h, t1)"
  by (simp add: CompileShader_def read_content_def read_fails_def Let_def
      split: file_entry.splits)


lemma LinkProgram_unfold:
  assumes "CompileShader e vp GL_VERTEX_SHADER t0 = (Inr vs, t1)"
    and "CompileShader e fp GL_FRAGMENT_SHADER t1 = (Inr fs, t2)"
  shows "LinkProgram e vp fp t0 =
    (if vs = 0 \<or> fs = 0 then (Inr 0, t2)
     else
       (let lp = glCreateProgram e t2;
            t3 = t2 @ [GlCreateProgram, GlAttachShader lp vs, GlAttachShader lp fs,
                       GlLinkProgram lp, GlDeleteShader vs, GlDeleteShader fs];
            t4 = t3 @ [GlGetProgramiv lp GL_LINK_STATUS]
        in if glGetProgramiv e t3 lp GL_LINK_STATUS = 0 then
             (Inr 0, t4 @ [GlGetProgramInfoLog lp 512,
                       StdCout (''Failed to link shader program:\<newline>''
                         @ c_str (take 511 (glGetProgramInfoLog e t4 lp)) @ ''\<newline>'')])
           else if lp = 0 then
             (Inr 0, t4 @ [StdCout ''Failed to create shader program.\<newline>'', GlfwTerminate])
           else (Inr lp, t4)))"
  using assms by (simp add: LinkProgram_def Let_def)

lemma LinkProgram_returns:
  assumes "\<not> read_fails (files e vp)" and "\<not> read_fails (files e fp)"
  shows "\<exists>h. fst (LinkProgram e vp fp t) = Inr h"
proof -
  from CompileShader_returns [OF assms(1)]
  obtain vs t1 where v: "CompileShader e vp GL_VERTEX_SHADER t = (Inr vs, t1)" by blast
  from CompileShader_returns [OF assms(2)]
  obtain fs t2 where f: "CompileShader e fp GL_FRAGMENT_SHADER t1 = (Inr fs, t2)" by blast
  show ?thesis
    by (simp add: LinkProgram_unfold [OF v f] Let_def)
qed

lemma LinkProgram_null:
  assumes none: "files e vp \<in> {CannotOpen, Bytes []} \<or> files e fp \<in> {CannotOpen, Bytes []}"
    and rv: "\<not> read_fails (files e vp)" and rf: "\<not> read_fails (files e fp)"
  shows "fst (LinkProgram e vp fp t) = Inr 0"
proof -
  from CompileShader_returns [OF rv]
  obtain vs t1 where v: "CompileShader e vp GL_VERTEX_SHADER t = (Inr vs, t1)" by blast
  from CompileShader_returns [OF rf]
  obtain fs t2 where f: "CompileShader e fp GL_FRAGMENT_SHADER t1 = (Inr fs, t2)" by blast
  have "vs = 0 \<or> fs = 0"
  proof (cases "files e vp \<in> {CannotOpen, Bytes []}")
    case True
    then have "CompileShader e vp GL_VERTEX_SHADER t = (Inr 0, t @ [IfstreamRead vp])"
      by (intro CompileShader_no_bytes) auto
    with v show ?thesis by simp
  next
    case False
    with none have "files e fp \<in> {CannotOpen, Bytes []}" by simp
    then have "CompileShader e fp GL_FRAGMENT_SHADER t1 = (Inr 0, t1 @ [IfstreamRead fp])"
      by (intro CompileShader_no_bytes) auto
    with f show ?thesis by simp
  qed
  then show ?thesis
    by (auto simp add: LinkProgram_unfold [OF v f])
qed

lemma LinkProgram_throws:
  assumes "read_fails (files e vp) \<or> read_fails (files e fp)"
  shows "fst (LinkProgram e vp fp t) = Inl std_ios_base_failure"
proof (cases "read_fails (files e vp)")
  case True
  then show ?thesis
    by (simp add: LinkProgram_def CompileShader_throws)
next
  case False
  with assms have rf: "read_fails (files e fp)" by simp
  from CompileShader_returns [OF False]
  obtain vs t1 where v: "CompileShader e vp GL_VERTEX_SHADER t = (Inr vs, t1)" by blast
  show ?thesis
    by (simp add: LinkProgram_def v CompileShader_throws [OF rf])
qed

lemma LinkProgram_Inl:
  assumes "LinkProgram e vp fp t = (Inl x, t2)"
  shows "x = std_ios_base_failure \<and> (read_fails (files e vp) \<or> read_fails (files e fp))"
proof -
  have rd: "read_fails (files e vp) \<or> read_fails (files e fp)"
  proof (rule ccontr)
    assume "\<not> (read_fails (files e vp) \<or> read_fails (files e fp))"
    then have "\<exists>h. fst (LinkProgram e vp fp t) = Inr h"
      by (intro LinkProgram_returns) simp_all
    with assms show False by simp
  qed
  from LinkProgram_throws [OF rd, of t] assms rd show ?thesis by simp
qed

lemma Initialize_Inl:
  "InitializeGameWindow e w h col s = (Inl x, t1) \<Longrightarrow> x = GameWindowCannotBeInitializedException"
  by (auto simp: InitializeGameWindow_def Let_def split: prod.splits if_splits)

lemma ctor_unfold:
  "fst (GameWindow_ctor e w h vp fp cam fov col t) =
    (case InitializeGameWindow e w h col
            (\<lparr>camera = cam, window = 0, field_of_view = fov, program = 0,
              perspective_projection = mat4_default e\<rparr>, t) of
       (Inl x, t1) \<Rightarrow> Inl x
     | (Inr gw1, t1) \<Rightarrow>
         (case LinkProgram e vp fp t1 of
            (Inl x, t2) \<Rightarrow> Inl x
          | (Inr linked, t2) \<Rightarrow>
              if linked = 0 then Inl GameWindowCannotBeInitializedException
              else Inr (gw1\<lparr>program := linked\<rparr>)))"
  by (simp add: GameWindow_ctor_def Let_def split: prod.splits sum.splits)

lemma ctor_default_unfold:
  "fst (GameWindow_ctor_default e w h vp fp cam t) =
    (case InitializeGameWindow e w h (Color3 e (float_lit e 0) (float_lit e 0) (float_lit e 0))
            (\<lparr>camera = cam, window = 0, field_of_view = float_lit e 45, program = 0,
              perspective_projection = mat4_default e\<rparr>, t) of
       (Inl x, t1) \<Rightarrow> Inl x
     | (Inr gw1, t1) \<Rightarrow>
         (case LinkProgram e vp fp t1 of
            (Inl x, t2) \<Rightarrow> Inl x
          | (Inr linked, t2) \<Rightarrow>
              if linked = 0 then Inl GameWindowCannotBeInitializedException
              else Inr (gw1\<lparr>program := linked\<rparr>)))"
  by (simp add: GameWindow_ctor_default_def Let_def split: prod.splits sum.splits)

lemma ctor_program:
  "fst (GameWindow_ctor e w h vp fp cam fov col t) = Inr gw \<Longrightarrow> program gw \<noteq> 0"
  by (auto simp: ctor_unfold split: prod.splits sum.splits if_splits)

lemma ctor_default_program:
  "fst (GameWindow_ctor_default e w h vp fp cam t) = Inr gw \<Longrightarrow> program gw \<noteq> 0"
  by (auto simp: ctor_default_unfold split: prod.splits sum.splits if_splits)

lemma ctor_ios:
  "fst (GameWindow_ctor e w h vp fp cam fov col t) = Inl std_ios_base_failure \<Longrightarrow>
     read_fails (files e vp) \<or> read_fails (files e fp)"
  by (auto simp: ctor_unfold split: prod.splits sum.splits if_splits
      dest: Initialize_Inl LinkProgram_Inl)

lemma ctor_default_ios:
  "fst (GameWindow_ctor_default e w h vp fp cam t) = Inl std_ios_base_failure \<Longrightarrow>
     read_fails (files e vp) \<or> read_fails (files e fp)"
  by (auto simp: ctor_default_unfold split: prod.splits sum.splits if_splits
      dest: Initialize_Inl LinkProgram_Inl)

lemma ctor_fails_of_link:
  assumes "\<And>t1. fst (LinkProgram e vp fp t1) = Inr 0"
  shows "fst (GameWindow_ctor e w h vp fp cam fov col t) = Inl GameWindowCannotBeInitializedException"
proof -
  have "LinkProgram e vp fp t1 = (r, t2) \<Longrightarrow> r = Inr 0" for t1 r t2
    using assms [of t1] by simp
  then show ?thesis
    by (auto simp: ctor_unfold split: prod.splits sum.splits dest: Initialize_Inl)
qed

lemma ctor_default_fails_of_link:
  assumes "\<And>t1. fst (LinkProgram e vp fp t1) = Inr 0"
  shows "fst (GameWindow_ctor_default e w h vp fp cam t) = Inl GameWindowCannotBeInitializedException"
proof -
  have "LinkProgram e vp fp t1 = (r, t2) \<Longrightarrow> r = Inr 0" for t1 r t2
    using assms [of t1] by simp
  then show ?thesis
    by (auto simp: ctor_default_unfold split: prod.splits sum.splits dest: Initialize_Inl)
qed

lemma no_content_fails:
  assumes "files e vp \<in> {CannotOpen, Bytes []} \<or> files e fp \<in> {CannotOpen, Bytes []}"
    and "\<not> read_fails (files e vp)" and "\<not> read_fails (files e fp)"
  shows "fst (GameWindow_ctor e w h vp fp cam fov col t) = Inl GameWindowCannotBeInitializedException"
    and "fst (GameWindow_ctor_default e w h vp fp cam t) = Inl GameWindowCannotBeInitializedException"
  using assms
  by (simp_all add: ctor_fails_of_link ctor_default_fails_of_link LinkProgram_null)

lemmas demo_unfold =
  GameWindow_ctor_def GameWindow_ctor_default_def InitializeGameWindow_def Let_def
  SetBufferClearColor_def UpdateDimensions_def UpdatePerspectiveProjection_def
  LinkProgram_def CompileShader_def read_content_def c_str_def demo_env_def demo_files_def
  Color3_def

lemma demo_ctor:
  "fst (GameWindow_ctor_default demo_env 800 600 ''shader.vert'' ''shader.frag'' 1 []) =
     Inr demo_window"
  by (simp add: demo_unfold demo_window_def)

text \<open>
  Claim C1, amended. When the vertex or the fragment shader file is empty (0 bytes) and the
  read of neither file fails, both constructors throw
  \<open>GameWindowCannotBeInitializedException\<close>, whether or not the other file compiles:
  \<open>CompileShader\<close> returns the null handle 0 for the empty file, \<open>LinkProgram\<close> returns 0,
  and the constructor throws.
\<close>
theorem empty_shader_fails_construction:
  assumes "files e vp = Bytes [] \<or> files e fp = Bytes []"
    and "\<not> read_fails (files e vp)" and "\<not> read_fails (files e fp)"
  shows "fst (GameWindow_ctor e w h vp fp cam fov col t) = Inl GameWindowCannotBeInitializedException
       \<and> fst (GameWindow_ctor_default e w h vp fp cam t) = Inl GameWindowCannotBeInitializedException
       \<and> (\<forall>t1. fst (LinkProgram e vp fp t1) = Inr 0)
       \<and> (\<forall>ty t1. files e vp = Bytes [] \<longrightarrow> fst (CompileShader e vp ty t1) = Inr 0)
       \<and> (\<forall>ty t1. files e fp = Bytes [] \<longrightarrow> fst (CompileShader e fp ty t1) = Inr 0)"
proof -
  from assms(1) have nc: "files e vp \<in> {CannotOpen, Bytes []} \<or> files e fp \<in> {CannotOpen, Bytes []}"
    by auto
  have "\<And>p ty t1. files e p = Bytes [] \<Longrightarrow> fst (CompileShader e p ty t1) = Inr 0"
    by (simp add: CompileShader_no_bytes)
  with nc assms(2,3) show ?thesis
    by (simp add: no_content_fails LinkProgram_null)
qed

theorem empty_shader_fails_construction_witness:
  "files demo_env ''empty.frag'' = Bytes []
   \<and> \<not> read_fails (files demo_env ''shader.vert'')
   \<and> \<not> read_fails (files demo_env ''empty.frag'')
   \<and> fst (GameWindow_ctor_default demo_env 800 600 ''shader.vert'' ''shader.frag'' 1 []) \<noteq>
       Inl GameWindowCannotBeInitializedException
   \<and> fst (GameWindow_ctor_default demo_env 800 600 ''shader.vert'' ''empty.frag'' 1 []) =
       Inl GameWindowCannotBeInitializedException"
proof -
  have h: "files demo_env ''shader.vert'' = Bytes [] \<or> files demo_env ''empty.frag'' = Bytes []"
    by (simp add: demo_env_def demo_files_def)
  have rv: "\<not> read_fails (files demo_env ''shader.vert'')"
    by (simp add: demo_env_def demo_files_def read_fails_def)
  have rf: "\<not> read_fails (files demo_env ''empty.frag'')"
    by (simp add: demo_env_def demo_files_def read_fails_def)
  have ok: "fst (GameWindow_ctor_default demo_env 800 600 ''shader.vert'' ''shader.frag'' 1 []) \<noteq>
           Inl GameWindowCannotBeInitializedException"
    using demo_ctor by simp
  show ?thesis
    using empty_shader_fails_construction [OF h rv rf, of 800 600 1 45 "Color3 demo_env 0 0 0" "[]"]
      ok rv rf
    by (auto simp add: demo_env_def demo_files_def)
qed

text \<open>
  Claim C1 as stated fails when the read of the other path fails. With a directory as the
  vertex shader and an empty fragment shader, and with an empty vertex shader and a
  directory as the fragment shader, \<^verbatim>\<open>std::ios_base::failure\<close> leaves \<open>LinkProgram\<close> and the
  constructor: \<open>LinkProgram\<close> does not return 0 and the constructor does not throw
  \<open>GameWindowCannotBeInitializedException\<close>.
\<close>
theorem empty_shader_unreadable_other_counterexample:
  "files demo_env ''empty.frag'' = Bytes []
   \<and> fst (LinkProgram demo_env ''shaders'' ''empty.frag'' []) = Inl std_ios_base_failure
   \<and> fst (LinkProgram demo_env ''empty.frag'' ''shaders'' []) = Inl std_ios_base_failure
   \<and> fst (GameWindow_ctor_default demo_env 800 600 ''shaders'' ''empty.frag'' 1 []) =
       Inl std_ios_base_failure
   \<and> fst (GameWindow_ctor_default demo_env 800 600 ''empty.frag'' ''shaders'' 1 []) =
       Inl std_ios_base_failure
   \<and> fst (GameWindow_ctor_default demo_env 800 600 ''empty.frag'' ''shaders'' 1 []) \<noteq>
       Inl GameWindowCannotBeInitializedException"
  by (simp add: demo_unfold)



text \<open>
  Claim C6, amended. Each constructor either returns an object whose program handle is not
  0, or throws and leaves no object: it throws \<open>GameWindowCannotBeInitializedException\<close>,
  or, only when the read of a shader file fails, \<^verbatim>\<open>std::ios_base::failure\<close>. No
  constructor returns an object with program 0.
\<close>
theorem construction_atomic:
  "(fst (GameWindow_ctor e w h vp fp cam fov col t) = Inl GameWindowCannotBeInitializedException
      \<or> (fst (GameWindow_ctor e w h vp fp cam fov col t) = Inl std_ios_base_failure
           \<and> (read_fails (files e vp) \<or> read_fails (files e fp)))
      \<or> (\<exists>gw. fst (GameWindow_ctor e w h vp fp cam fov col t) = Inr gw \<and> program gw \<noteq> 0))
   \<and> (fst (GameWindow_ctor_default e w h vp fp cam t) = Inl GameWindowCannotBeInitializedException
      \<or> (fst (GameWindow_ctor_default e w h vp fp cam t) = Inl std_ios_base_failure
           \<and> (read_fails (files e vp) \<or> read_fails (files e fp)))
      \<or> (\<exists>gw. fst (GameWindow_ctor_default e w h vp fp cam t) = Inr gw \<and> program gw \<noteq> 0))"
proof -
  have a: "fst (GameWindow_ctor e w h vp fp cam fov col t) = Inl GameWindowCannotBeInitializedException
      \<or> (fst (GameWindow_ctor e w h vp fp cam fov col t) = Inl std_ios_base_failure
           \<and> (read_fails (files e vp) \<or> read_fails (files e fp)))
      \<or> (\<exists>gw. fst (GameWindow_ctor e w h vp fp cam fov col t) = Inr gw \<and> program gw \<noteq> 0)"
  proof (cases "fst (GameWindow_ctor e w h vp fp cam fov col t)")
    case (Inl x)
    then show ?thesis
      using ctor_ios [of e w h vp fp cam fov col t] by (cases x) simp_all
  next
    case (Inr gw)
    then show ?thesis by (simp add: ctor_program)
  qed
  have b: "fst (GameWindow_ctor_default e w h vp fp cam t) = Inl GameWindowCannotBeInitializedException
      \<or> (fst (GameWindow_ctor_default e w h vp fp cam t) = Inl std_ios_base_failure
           \<and> (read_fails (files e vp) \<or> read_fails (files e fp)))
      \<or> (\<exists>gw. fst (GameWindow_ctor_default e w h vp fp cam t) = Inr gw \<and> program gw \<noteq> 0)"
  proof (cases "fst (GameWindow_ctor_default e w h vp fp cam t)")
    case (Inl x)
    then show ?thesis
      using ctor_default_ios [of e w h vp fp cam t] by (cases x) simp_all
  next
    case (Inr gw)
    then show ?thesis by (simp add: ctor_default_program)
  qed
  from a b show ?thesis by simp
qed

theorem construction_atomic_example:
  "fst (GameWindow_ctor_default demo_env 800 600 ''shader.vert'' ''shader.frag'' 1 []) =
     Inr demo_window
   \<and> program demo_window \<noteq> 0
   \<and> fst (GameWindow_ctor_default demo_env_link_fails 800 600 ''shader.vert'' ''shader.frag'' 1 []) =
     Inl GameWindowCannotBeInitializedException"
proof -
  have rv: "\<not> read_fails (files demo_env_link_fails ''shader.vert'')"
    by (simp add: demo_env_link_fails_def demo_env_def demo_files_def read_fails_def)
  have rf: "\<not> read_fails (files demo_env_link_fails ''shader.frag'')"
    by (simp add: demo_env_link_fails_def demo_env_def demo_files_def read_fails_def)
  have "fst (GameWindow_ctor_default demo_env_link_fails 800 600 ''shader.vert'' ''shader.frag'' 1 [])
          \<noteq> Inr gw" for gw
    by (simp add: demo_unfold demo_env_link_fails_def)
  then show ?thesis
    using construction_atomic [of demo_env_link_fails 800 600 "''shader.vert''" "''shader.frag''"
        1 45 "Color3 demo_env 0 0 0" "[]"]
      construction_atomic [of demo_env 800 600 "''shader.vert''" "''shader.frag''"
        1 45 "Color3 demo_env 0 0 0" "[]"] demo_ctor rv rf
    by auto
qed

text \<open>
  Claim C6 as stated fails for an input whose fragment shader path is a directory: the
  constructor does not complete and the exception that leaves it is
  \<^verbatim>\<open>std::ios_base::failure\<close>, not \<open>GameWindowCannotBeInitializedException\<close>.
\<close>
theorem construction_other_exception_counterexample:
  "fst (GameWindow_ctor demo_env 800 600 ''shader.vert'' ''shaders'' 1 45
          (Color3 demo_env 0 0 0) []) = Inl std_ios_base_failure
   \<and> fst (GameWindow_ctor demo_env 800 600 ''shader.vert'' ''shaders'' 1 45
          (Color3 demo_env 0 0 0) []) \<noteq> Inl GameWindowCannotBeInitializedException"
  by (simp add: demo_unfold)

text \<open>
  Claim C10, amended. A shader path that cannot be opened is treated exactly as an empty
  file: \<open>CompileShader\<close> reads no content and returns the null handle 0 after the read
  alone, no compiler call made, which is also what it returns in an environment where the
  path holds an empty file; when the read of neither file fails, both constructors then
  throw \<open>GameWindowCannotBeInitializedException\<close>. A path that is opened but whose read
  fails is not treated so: \<^verbatim>\<open>std::ios_base::failure\<close> leaves \<open>CompileShader\<close> after the
  read alone, and leaves \<open>LinkProgram\<close>.
\<close>
theorem unopenable_shader_fails_construction:
  "((files e vp = CannotOpen \<or> files e fp = CannotOpen)
      \<and> \<not> read_fails (files e vp) \<and> \<not> read_fails (files e fp) \<longrightarrow>
        fst (GameWindow_ctor e w h vp fp cam fov col t) =
          Inl GameWindowCannotBeInitializedException
        \<and> fst (GameWindow_ctor_default e w h vp fp cam t) =
          Inl GameWindowCannotBeInitializedException)
   \<and> (\<forall>p ty t1. files e p = CannotOpen \<longrightarrow>
         CompileShader e p ty t1 = (Inr 0, t1 @ [IfstreamRead p]) \<and>
         CompileShader e p ty t1 =
           CompileShader (e\<lparr>files := (files e)(p := Bytes [])\<rparr>) p ty t1)
   \<and> (\<forall>p ty t1. read_fails (files e p) \<longrightarrow>
         CompileShader e p ty t1 = (Inl std_ios_base_failure, t1 @ [IfstreamRead p]))
   \<and> (read_fails (files e vp) \<or> read_fails (files e fp) \<longrightarrow>
         (\<forall>t1. fst (LinkProgram e vp fp t1) = Inl std_ios_base_failure))"
proof -
  have same: "CompileShader e p ty t1 = (Inr 0, t1 @ [IfstreamRead p]) \<and>
            CompileShader e p ty t1 =
              CompileShader (e\<lparr>files := (files e)(p := Bytes [])\<rparr>) p ty t1"
    if "files e p = CannotOpen" for p ty t1
    using that by (simp add: CompileShader_no_bytes)
  have ctor: "fst (GameWindow_ctor e w h vp fp cam fov col t) =
          Inl GameWindowCannotBeInitializedException
        \<and> fst (GameWindow_ctor_default e w h vp fp cam t) =
          Inl GameWindowCannotBeInitializedException"
    if "files e vp = CannotOpen \<or> files e fp = CannotOpen"
      and "\<not> read_fails (files e vp)" and "\<not> read_fails (files e fp)"
  proof -
    from that(1) have "files e vp \<in> {CannotOpen, Bytes []} \<or> files e fp \<in> {CannotOpen, Bytes []}"
      by auto
    from no_content_fails [OF this that(2,3)] show ?thesis by simp
  qed
  from same ctor CompileShader_throws LinkProgram_throws show ?thesis
    by blast
qed

theorem unopenable_shader_fails_construction_witness:
  "files demo_env ''missing.vert'' = CannotOpen
   \<and> \<not> read_fails (files demo_env ''missing.vert'')
   \<and> \<not> read_fails (files demo_env ''shader.frag'')
   \<and> read_fails (files demo_env ''shaders'')
   \<and> fst (GameWindow_ctor_default demo_env 800 600 ''missing.vert'' ''shader.frag'' 1 []) =
       Inl GameWindowCannotBeInitializedException
   \<and> CompileShader demo_env ''missing.vert'' GL_VERTEX_SHADER [] =
       (Inr 0, [IfstreamRead ''missing.vert''])
   \<and> fst (LinkProgram demo_env ''shader.vert'' ''shaders'' []) = Inl std_ios_base_failure"
proof -
  have h: "files demo_env ''missing.vert'' = CannotOpen"
    by (simp add: demo_env_def demo_files_def)
  have rv: "\<not> read_fails (files demo_env ''missing.vert'')"
    by (simp add: demo_env_def demo_files_def read_fails_def)
  have rf: "\<not> read_fails (files demo_env ''shader.frag'')"
    by (simp add: demo_env_def demo_files_def read_fails_def)
  have rd: "read_fails (files demo_env ''shaders'')"
    by (simp add: demo_env_def demo_files_def read_fails_def)
  show ?thesis
    using unopenable_shader_fails_construction
        [of demo_env "''missing.vert''" "''shader.frag''" 800 600 1 45 "Color3 demo_env 0 0 0" "[]"]
      unopenable_shader_fails_construction
        [of demo_env "''shader.vert''" "''shaders''" 800 600 1 45 "Color3 demo_env 0 0 0" "[]"]
      h rv rf rd
    by simp
qed

text \<open>
  Claim C10 as stated fails for a path that is opened but cannot be read, here a directory:
  \<open>CompileShader\<close> does not return the null handle as it does once the path holds an empty
  file, and the constructor throws \<^verbatim>\<open>std::ios_base::failure\<close>, not
  \<open>GameWindowCannotBeInitializedException\<close>.
\<close>
theorem unreadable_shader_counterexample:
  "files demo_env ''shaders'' = ReadError []
   \<and> CompileShader demo_env ''shaders'' GL_VERTEX_SHADER [] =
       (Inl std_ios_base_failure, [IfstreamRead ''shaders''])
   \<and> CompileShader (demo_env\<lparr>files := (files demo_env)(''shaders'' := Bytes [])\<rparr>)
         ''shaders'' GL_VERTEX_SHADER [] =
       (Inr 0, [IfstreamRead ''shaders''])
   \<and> fst (GameWindow_ctor_default demo_env 800 600 ''shaders'' ''shader.frag'' 1 []) =
       Inl std_ios_base_failure
   \<and> fst (GameWindow_ctor_default demo_env 800 600 ''shaders'' ''shader.frag'' 1 []) \<noteq>
       Inl GameWindowCannotBeInitializedException"
  by (simp add: demo_unfold)

section \<open>Projection\<close>

lemma last_set_append:
  "last_set f (cs @ ds) = (case last_set f ds of Some v \<Rightarrow> Some v | None \<Rightarrow> last_set f cs)"
  by (induction cs) (auto split: option.splits)

text \<open>
  Claim C2. After \<open>UpdateDimensions w h\<close> the projection matrix is \<open>perspective\<close> applied to
  the field of view (in radians), to the quotient of the width and the height that the
  framebuffer-size query reports once the window size has been set (the requested \<open>w\<close> and
  \<open>h\<close> do not enter), to the near plane 0.1 and to the far plane 100. The field of view
  is the one the window had.
\<close>
theorem UpdateDimensions_projection:
  "perspective_projection (fst (UpdateDimensions e w h (gw, t0))) =
     (case glfwGetFramebufferSize e (t0 @ [GlfwSetWindowSize (window gw) w h]) (window gw) of
        (real_width, real_height) \<Rightarrow>
          perspective e (radians e (field_of_view gw))
            (float_div e (float_of_int e real_width) (float_of_int e real_height))
            (float_lit e (1 / 10)) (float_lit e 100))
   \<and> field_of_view (fst (UpdateDimensions e w h (gw, t0))) = field_of_view gw"
  by (simp add: UpdateDimensions_def UpdatePerspectiveProjection_def Let_def split: prod.splits)

theorem UpdateDimensions_projection_example:
  "perspective_projection (fst (UpdateDimensions demo_env 800 600 (demo_window, []))) =
     [radians demo_env 45, 1280 / 720, 1 / 10, 100]"
  using UpdateDimensions_projection [of demo_env 800 600 demo_window "[]"]
  by (simp add: demo_env_def demo_window_def)

text \<open>
  Claim C7. \<open>UpdateFieldOfView fov2\<close> stores \<open>fov2\<close> and sets the projection matrix to
  \<open>perspective\<close> of \<open>fov2\<close> (in radians), the aspect ratio of the framebuffer size queried
  at that moment, 0.1 and 100. Its only call is that query: the viewport and the window size
  set last stay what they were, and the window is the same.
\<close>
theorem UpdateFieldOfView_spec:
  "field_of_view (fst (UpdateFieldOfView e fov2 (gw, t0))) = fov2
   \<and> perspective_projection (fst (UpdateFieldOfView e fov2 (gw, t0))) =
       (case glfwGetFramebufferSize e t0 (window gw) of
          (real_width, real_height) \<Rightarrow>
            perspective e (radians e fov2)
              (float_div e (float_of_int e real_width) (float_of_int e real_height))
              (float_lit e (1 / 10)) (float_lit e 100))
   \<and> snd (UpdateFieldOfView e fov2 (gw, t0)) = t0 @ [GlfwGetFramebufferSize (window gw)]
   \<and> last_viewport (snd (UpdateFieldOfView e fov2 (gw, t0))) = last_viewport t0
   \<and> last_window_size (snd (UpdateFieldOfView e fov2 (gw, t0))) = last_window_size t0
   \<and> window (fst (UpdateFieldOfView e fov2 (gw, t0))) = window gw"
  by (simp add: UpdateFieldOfView_def UpdatePerspectiveProjection_def Let_def
      last_viewport_def last_window_size_def last_set_append viewport_call_def
      window_size_call_def split: prod.splits)

theorem UpdateFieldOfView_spec_example:
  "last_viewport (snd (UpdateFieldOfView demo_env 60
      (UpdateDimensions demo_env 800 600 (demo_window, [])))) = Some (0, 0, 1280, 720)
   \<and> last_window_size (snd (UpdateFieldOfView demo_env 60
      (UpdateDimensions demo_env 800 600 (demo_window, [])))) = Some (1, 800, 600)
   \<and> perspective_projection (fst (UpdateFieldOfView demo_env 60
      (UpdateDimensions demo_env 800 600 (demo_window, [])))) =
        [radians demo_env 60, 1280 / 720, 1 / 10, 100]"
  using UpdateFieldOfView_spec [of demo_env 60
      "fst (UpdateDimensions demo_env 800 600 (demo_window, []))"
      "snd (UpdateDimensions demo_env 800 600 (demo_window, []))"]
  by (simp add: demo_env_def demo_window_def UpdateDimensions_def UpdateFieldOfView_def
      UpdatePerspectiveProjection_def Let_def last_viewport_def last_window_size_def
      viewport_call_def window_size_call_def)

section \<open>Materials\<close>

text \<open>
  Claim C3. \<open>RemoveTexture m h\<close> leaves the material as it is when \<open>h\<close> is neither of its
  handles; when \<open>h\<close> is exactly one of them it sets that handle to 0 and changes nothing
  else; and removing the same handle a second time changes nothing.
\<close>
theorem RemoveTexture_spec:
  "(diffuse_handle m \<noteq> h \<and> specular_handle m \<noteq> h \<longrightarrow> RemoveTexture m h = m) \<and>
   (diffuse_handle m = h \<and> specular_handle m \<noteq> h \<longrightarrow>
      RemoveTexture m h = m\<lparr>diffuse_handle := 0\<rparr>) \<and>
   (diffuse_handle m \<noteq> h \<and> specular_handle m = h \<longrightarrow>
      RemoveTexture m h = m\<lparr>specular_handle := 0\<rparr>) \<and>
   RemoveTexture (RemoveTexture m h) h = RemoveTexture m h"
  by (simp add: RemoveTexture_def Let_def)

theorem RemoveTexture_spec_witness:
  "RemoveTexture (Material4 5 7 (32 :: real) 0) 9 = Material4 5 7 32 0 \<and>
   RemoveTexture (Material4 5 7 (32 :: real) 0) 5 = Material4 0 7 32 0 \<and>
   RemoveTexture (Material4 5 7 (32 :: real) 0) 7 = Material4 5 0 32 0 \<and>
   RemoveTexture (RemoveTexture (Material4 5 7 (32 :: real) 0) 5) 5 = Material4 0 7 32 0"
  using RemoveTexture_spec [of "Material4 5 7 (32 :: real) 0" 9]
    RemoveTexture_spec [of "Material4 5 7 (32 :: real) 0" 5]
    RemoveTexture_spec [of "Material4 5 7 (32 :: real) 0" 7]
  by (simp add: Material4_def RemoveTexture_def)

text \<open>
  Claim C4. For a material whose diffuse handle is 0 and whose specular handle is not,
  \<open>UseMaterial\<close> makes exactly the calls listed: it uploads 0 to \<^verbatim>\<open>diffuse_enabled\<close>
  and makes no call for the diffuse texture; it uploads 1 to \<^verbatim>\<open>specular_enabled\<close>,
  activates texture unit 1, binds the specular handle and sets \<^verbatim>\<open>specular_texture\<close>
  to 1. Each upload goes to the location the device returned for that name, asked with the
  trace as it stood then. The only texture bind is the specular handle on unit 1, whichever
  unit was active before.
\<close>
theorem UseMaterial_specular_only:
  assumes "diffuse_handle m = 0" and "specular_handle m \<noteq> 0"
  shows
    "(let T = UseMaterial e m p t0;
          location = (\<lambda>k name. glGetUniformLocation e (take (length t0 + k) T) p name)
      in T = t0 @
           [GlGetUniformLocation p ''ambient_coefficient'',
            GlUniform1f (location 0 ''ambient_coefficient'') (ambient_coefficient m),
            GlGetUniformLocation p ''shininess'',
            GlUniform1f (location 2 ''shininess'') (shininess m),
            GlGetUniformLocation p ''diffuse_enabled'',
            GlUniform1i (location 4 ''diffuse_enabled'') 0,
            GlGetUniformLocation p ''specular_enabled'',
            StdCout ''specular_enabled 1\<newline>'',
            GlUniform1i (location 6 ''specular_enabled'') 1,
            GlActiveTexture GL_TEXTURE1,
            GlBindTexture GL_TEXTURE_2D (specular_handle m),
            GlGetUniformLocation p ''specular_texture'',
            GlUniform1i (location 11 ''specular_texture'') 1]
         \<and> (\<forall>u. texture_binds u (drop (length t0) T) = [(GL_TEXTURE1, specular_handle m)]))"
  using assms by (simp add: UseMaterial_def Let_def show_bool_def)

theorem UseMaterial_specular_only_witness:
  "diffuse_handle demo_material = 0 \<and> specular_handle demo_material \<noteq> 0 \<and>
   UseMaterial demo_env demo_material 3 [] =
     [GlGetUniformLocation 3 ''ambient_coefficient'', GlUniform1f 19 (3 / 100),
      GlGetUniformLocation 3 ''shininess'', GlUniform1f 9 32,
      GlGetUniformLocation 3 ''diffuse_enabled'', GlUniform1i 15 0,
      GlGetUniformLocation 3 ''specular_enabled'',
      StdCout ''specular_enabled 1\<newline>'', GlUniform1i 16 1,
      GlActiveTexture GL_TEXTURE1, GlBindTexture GL_TEXTURE_2D 7,
      GlGetUniformLocation 3 ''specular_texture'', GlUniform1i 16 1]"
proof -
  have d: "diffuse_handle demo_material = 0"
    by (simp add: demo_material_def Material3_def Material4_def)
  have s: "specular_handle demo_material \<noteq> 0"
    by (simp add: demo_material_def Material3_def Material4_def)
  show ?thesis
    using d s UseMaterial_specular_only [OF d s, of demo_env 3 "[]"]
    by (simp add: Let_def demo_env_def demo_material_def Material3_def Material4_def)
qed

section \<open>Frames\<close>

lemma RenderModel_all:
  "foldl (\<lambda>s1 model_instance. RenderModel model_instance s1) (gw, t) models =
     (gw, t @ map (\<lambda>model_instance. ModelInstanceDraw model_instance (program gw)) models)"
  by (induction models arbitrary: t) (simp_all add: RenderModel_def)

text \<open>
  Claim C8. \<open>PrepareRender\<close> leaves the object unchanged and makes these calls, in this
  order: use the program; clear the colour and depth buffers; look up \<^verbatim>\<open>view\<close>, read the
  camera's view transform and upload it to that location; look up \<^verbatim>\<open>projection\<close> and
  upload the stored projection matrix to that location.
\<close>
theorem PrepareRender_order:
  "PrepareRender e (gw, t0) =
    (gw, t0 @
      [GlUseProgram (program gw),
       GlClear {GL_COLOR_BUFFER_BIT, GL_DEPTH_BUFFER_BIT},
       GlGetUniformLocation (program gw) ''view'',
       CameraGetViewTransform (camera gw),
       GlUniformMatrix4fv
         (glGetUniformLocation e
            (t0 @ [GlUseProgram (program gw),
                   GlClear {GL_COLOR_BUFFER_BIT, GL_DEPTH_BUFFER_BIT}])
            (program gw) ''view'')
         1 False
         (GetViewTransform e
            (t0 @ [GlUseProgram (program gw),
                   GlClear {GL_COLOR_BUFFER_BIT, GL_DEPTH_BUFFER_BIT},
                   GlGetUniformLocation (program gw) ''view''])
            (camera gw)),
       GlGetUniformLocation (program gw) ''projection'',
       GlUniformMatrix4fv
         (glGetUniformLocation e
            (t0 @ [GlUseProgram (program gw),
                   GlClear {GL_COLOR_BUFFER_BIT, GL_DEPTH_BUFFER_BIT},
                   GlGetUniformLocation (program gw) ''view'',
                   CameraGetViewTransform (camera gw),
                   GlUniformMatrix4fv
                     (glGetUniformLocation e
                        (t0 @ [GlUseProgram (program gw),
                               GlClear {GL_COLOR_BUFFER_BIT, GL_DEPTH_BUFFER_BIT}])
                        (program gw) ''view'')
                     1 False
                     (GetViewTransform e
                        (t0 @ [GlUseProgram (program gw),
                               GlClear {GL_COLOR_BUFFER_BIT, GL_DEPTH_BUFFER_BIT},
                               GlGetUniformLocation (program gw) ''view''])
                        (camera gw))])
            (program gw) ''projection'')
         1 False (perspective_projection gw)])"
  by (simp add: PrepareRender_def Let_def)

theorem PrepareRender_order_example:
  "PrepareRender demo_env (demo_window, []) =
     (demo_window,
      [GlUseProgram 3, GlClear {GL_COLOR_BUFFER_BIT, GL_DEPTH_BUFFER_BIT},
       GlGetUniformLocation 3 ''view'', CameraGetViewTransform 1,
       GlUniformMatrix4fv 4 1 False [1], GlGetUniformLocation 3 ''projection'',
       GlUniformMatrix4fv 10 1 False (perspective_projection demo_window)])"
  using PrepareRender_order [of demo_env demo_window "[]"]
  by (simp add: demo_env_def, simp add: demo_window_def)

text \<open>
  Claim C9. For a window that a constructor has returned, a frame (\<open>PrepareRender\<close>, any
  number of \<open>RenderModel\<close>, \<open>FinishRender\<close>) uses one program handle throughout: the
  handle given to every \<^verbatim>\<open>Draw\<close> is the stored handle that \<open>PrepareRender\<close> activated and
  looked its uniforms up in. It is not 0, and none of the three operations changes the
  object.
\<close>
theorem frame_program_handle:
  assumes "fst (GameWindow_ctor e w h vp fp cam fov col t) = Inr gw
         \<or> fst (GameWindow_ctor_default e w h vp fp cam t) = Inr gw"
  shows "program gw \<noteq> 0
    \<and> (\<exists>view_location view projection_location.
         snd (render_frame e models (gw, t0)) =
           t0 @ [GlUseProgram (program gw),
                 GlClear {GL_COLOR_BUFFER_BIT, GL_DEPTH_BUFFER_BIT},
                 GlGetUniformLocation (program gw) ''view'',
                 CameraGetViewTransform (camera gw),
                 GlUniformMatrix4fv view_location 1 False view,
                 GlGetUniformLocation (program gw) ''projection'',
                 GlUniformMatrix4fv projection_location 1 False (perspective_projection gw)]
              @ map (\<lambda>model_instance. ModelInstanceDraw model_instance (program gw)) models
              @ [GlfwSwapBuffers (window gw)])
    \<and> fst (render_frame e models (gw, t0)) = gw
    \<and> fst (PrepareRender e (gw, t0)) = gw
    \<and> (\<forall>model_instance. fst (RenderModel model_instance (gw, t0)) = gw)
    \<and> fst (FinishRender (gw, t0)) = gw"
proof -
  from assms have "program gw \<noteq> 0"
    using ctor_program [of e w h vp fp cam fov col t gw]
      ctor_default_program [of e w h vp fp cam t gw] by auto
  moreover have "fst (PrepareRender e (gw, t0)) = gw"
    by (simp add: PrepareRender_def Let_def)
  moreover have "fst (render_frame e models (gw, t0)) = gw"
    by (simp add: render_frame_def PrepareRender_def Let_def RenderModel_all FinishRender_def)
  moreover have "\<exists>view_location view projection_location.
         snd (render_frame e models (gw, t0)) =
           t0 @ [GlUseProgram (program gw),
                 GlClear {GL_COLOR_BUFFER_BIT, GL_DEPTH_BUFFER_BIT},
                 GlGetUniformLocation (program gw) ''view'',
                 CameraGetViewTransform (camera gw),
                 GlUniformMatrix4fv view_location 1 False view,
                 GlGetUniformLocation (program gw) ''projection'',
                 GlUniformMatrix4fv projection_location 1 False (perspective_projection gw)]
              @ map (\<lambda>model_instance. ModelInstanceDraw model_instance (program gw)) models
              @ [GlfwSwapBuffers (window gw)]"
    by (simp add: render_frame_def PrepareRender_def Let_def RenderModel_all FinishRender_def)
  ultimately show ?thesis
    by (simp add: RenderModel_def FinishRender_def)
qed

theorem frame_program_handle_witness:
  "fst (GameWindow_ctor_default demo_env 800 600 ''shader.vert'' ''shader.frag'' 1 []) =
     Inr demo_window
   \<and> program demo_window = 3
   \<and> snd (render_frame demo_env [10, 11] (demo_window, [])) =
      [GlUseProgram 3, GlClear {GL_COLOR_BUFFER_BIT, GL_DEPTH_BUFFER_BIT},
       GlGetUniformLocation 3 ''view'', CameraGetViewTransform 1,
       GlUniformMatrix4fv 4 1 False [1], GlGetUniformLocation 3 ''projection'',
       GlUniformMatrix4fv 10 1 False (perspective_projection demo_window),
       ModelInstanceDraw 10 3, ModelInstanceDraw 11 3, GlfwSwapBuffers 1]"
proof -
  have h: "fst (GameWindow_ctor demo_env 800 600 ''shader.vert'' ''shader.frag'' 1 45
                  (Color3 demo_env 0 0 0) []) = Inr demo_window
         \<or> fst (GameWindow_ctor_default demo_env 800 600 ''shader.vert'' ''shader.frag'' 1 []) =
             Inr demo_window"
    by (rule disjI2) (rule demo_ctor)
  have p: "program demo_window = 3"
    by (simp add: demo_window_def)
  show ?thesis
    using frame_program_handle [OF h, of "[10, 11]" "[]"] demo_ctor p
    by (simp add: render_frame_def PrepareRender_def RenderModel_def FinishRender_def
        Let_def demo_env_def, simp add: demo_window_def)
qed

end
